theory Spec2Isabelle
  imports Main "HOL-Library.Word" "HOL-Library.AList"
begin

section \<open>Time\<close>

text \<open>
  A \<open>time.Time\<close> is modelled as the number of nanoseconds since Go's zero time
  (January 1, year 1, 00:00:00 UTC), so that \<open>IsZero\<close> is equality with 0, and a
  \<open>time.Duration\<close> as a number of nanoseconds. Both are unbounded integers: the 64-bit
  ranges of the source are not modelled. \<open>time.Now()\<close> is the parameter \<open>now\<close> of
  every operation; one call of an operation reads one instant.
\<close>

type_synonym time = int
type_synonym duration = int
type_synonym bytes = "8 word list"

definition Second :: duration where
  "Second = 1000000000"

definition unixToInternal :: int where
  "unixToInternal = 62135596800"

definition IsZero :: "time \<Rightarrow> bool" where
  "IsZero t = (t = 0)"

definition time_Unix :: "int \<Rightarrow> time" where
  "time_Unix sec = (sec + unixToInternal) * Second"

definition Unix :: "time \<Rightarrow> int" where
  "Unix t = t div Second - unixToInternal"

definition Add :: "time \<Rightarrow> duration \<Rightarrow> time" where
  "Add t d = t + d"

definition Before :: "time \<Rightarrow> time \<Rightarrow> bool" where
  "Before t u = (t < u)"

definition Since :: "time \<Rightarrow> time \<Rightarrow> duration" where
  "Since now t = now - t"

section \<open>Records and options (options.go)\<close>

record Record =
  Key :: string
  Value :: bytes
  TTL :: duration
  Expiry :: time

record Options =
  Addresses :: "string list"
  Database :: string
  Table :: string
  Auth :: bool
  Password :: string

datatype Option = WithAddresses "string list" | WithDatabase string string | WithAuth bool string

fun apply_Option :: "Options \<Rightarrow> Option \<Rightarrow> Options" where
  "apply_Option o1 (WithAddresses addrs) = o1\<lparr>Options.Addresses := addrs\<rparr>"
| "apply_Option o1 (WithDatabase database table) =
     o1\<lparr>Options.Database := database, Options.Table := table\<rparr>"
| "apply_Option o1 (WithAuth auth passwd) = o1\<lparr>Options.Auth := auth, Options.Password := passwd\<rparr>"

record WriteOptions =
  Address :: string
  Database :: string
  Table :: string
  Expiry :: time
  TTL :: duration

datatype WriteOption =
  WithWriteAddress string | WithWriteDatabase string string | WithWriteExpiry time | WithWriteTTL duration

fun apply_WriteOption :: "WriteOptions \<Rightarrow> WriteOption \<Rightarrow> WriteOptions" where
  "apply_WriteOption w (WithWriteAddress address) = w\<lparr>WriteOptions.Address := address\<rparr>"
| "apply_WriteOption w (WithWriteDatabase database table) =
     w\<lparr>WriteOptions.Database := database, WriteOptions.Table := table\<rparr>"
| "apply_WriteOption w (WithWriteExpiry t) = w\<lparr>WriteOptions.Expiry := t\<rparr>"
| "apply_WriteOption w (WithWriteTTL d) = w\<lparr>WriteOptions.TTL := d\<rparr>"

record ReadOptions =
  Address :: string
  Database :: string
  Table :: string
  Prefix :: bool
  Suffix :: bool
  Limit :: "64 word"
  Offset :: "64 word"

datatype ReadOption =
  WithReadAddr string | WithReadDatabase string string | WithReadPrefix | WithReadSuffix
  | WithReadLimit "64 word" "64 word list"

fun apply_ReadOption :: "ReadOptions \<Rightarrow> ReadOption \<Rightarrow> ReadOptions" where
  "apply_ReadOption r (WithReadAddr address) = r\<lparr>ReadOptions.Address := address\<rparr>"
| "apply_ReadOption r (WithReadDatabase database table) =
     r\<lparr>ReadOptions.Database := database, ReadOptions.Table := table\<rparr>"
| "apply_ReadOption r WithReadPrefix = r\<lparr>ReadOptions.Prefix := True\<rparr>"
| "apply_ReadOption r WithReadSuffix = r\<lparr>ReadOptions.Suffix := True\<rparr>"
| "apply_ReadOption r (WithReadLimit limit offset) =
     (case offset of
        [] \<Rightarrow> r\<lparr>ReadOptions.Limit := limit\<rparr>
      | off # _ \<Rightarrow> r\<lparr>ReadOptions.Limit := limit, ReadOptions.Offset := off\<rparr>)"

record DeleteOptions =
  Database :: string
  Table :: string

datatype DeleteOption = WithDeleteDatabase string string

fun apply_DeleteOption :: "DeleteOptions \<Rightarrow> DeleteOption \<Rightarrow> DeleteOptions" where
  "apply_DeleteOption d (WithDeleteDatabase database table) =
     d\<lparr>DeleteOptions.Database := database, DeleteOptions.Table := table\<rparr>"

record ListOptions =
  Database :: string
  Table :: string
  Prefix :: string
  Suffix :: string
  Limit :: "64 word"
  Offset :: "64 word"

datatype ListOption =
  WithListFrom string string | WithListPrefix string | WithListSuffix string
  | WithListLimit "64 word" | WithListOffset "64 word"

fun apply_ListOption :: "ListOptions \<Rightarrow> ListOption \<Rightarrow> ListOptions" where
  "apply_ListOption l (WithListFrom database table) =
     l\<lparr>ListOptions.Database := database, ListOptions.Table := table\<rparr>"
| "apply_ListOption l (WithListPrefix p) = l\<lparr>ListOptions.Prefix := p\<rparr>"
| "apply_ListOption l (WithListSuffix s) = l\<lparr>ListOptions.Suffix := s\<rparr>"
| "apply_ListOption l (WithListLimit n) = l\<lparr>ListOptions.Limit := n\<rparr>"
| "apply_ListOption l (WithListOffset n) = l\<lparr>ListOptions.Offset := n\<rparr>"

text \<open>The zero values of the option structs, as \<open>var options store.ReadOptions\<close> gives them.\<close>

definition zero_Options :: Options where
  "zero_Options = \<lparr>Options.Addresses = [], Options.Database = [], Options.Table = [],
     Options.Auth = False, Options.Password = []\<rparr>"

definition zero_WriteOptions :: WriteOptions where
  "zero_WriteOptions = \<lparr>WriteOptions.Address = [], WriteOptions.Database = [],
     WriteOptions.Table = [], WriteOptions.Expiry = 0, WriteOptions.TTL = 0\<rparr>"

definition zero_ReadOptions :: ReadOptions where
  "zero_ReadOptions = \<lparr>ReadOptions.Address = [], ReadOptions.Database = [],
     ReadOptions.Table = [], ReadOptions.Prefix = False, ReadOptions.Suffix = False,
     ReadOptions.Limit = 0, ReadOptions.Offset = 0\<rparr>"

definition zero_DeleteOptions :: DeleteOptions where
  "zero_DeleteOptions = \<lparr>DeleteOptions.Database = [], DeleteOptions.Table = []\<rparr>"

definition zero_ListOptions :: ListOptions where
  "zero_ListOptions = \<lparr>ListOptions.Database = [], ListOptions.Table = [],
     ListOptions.Prefix = [], ListOptions.Suffix = [], ListOptions.Limit = 0,
     ListOptions.Offset = 0\<rparr>"

text \<open>
  Errors are values. \<open>ErrNotFound\<close> is the store's own sentinel, \<open>redis_Nil\<close> the
  cache client's reply for an absent key, \<open>EngineError\<close> an error that a backing engine
  reports (the text is the engine's), \<open>Errorf\<close> is \<open>fmt.Errorf\<close> wrapping a cause
  with a context, \<open>NamespaceError\<close> is the error of the database-name validation.
\<close>

datatype error = ErrNotFound | redis_Nil | EngineError string | Errorf string error | NamespaceError

section \<open>The relational engine\<close>

text \<open>
  The relational adapter talks to MySQL through an object-relational mapper. Neither is part
  of the repository, so the engine is a small model of what the adapter's statements mean:
  a database is a family of tables, a table is the list of its rows in storage order, a
  session carries the conditions, the limit, the offset and the ordering that the adapter
  sets, and running a session filters, orders and pages the rows. The statements are read
  at the level of their SQL meaning; quoting, collations and the 64-bit range of the
  columns are not modelled. When \<open>failure\<close> is set, every statement fails with that
  error: this stands for any transport or query failure.
\<close>

record storeRecord =
  ID :: int
  Key :: string
  Value :: bytes
  Expiry :: int

record gorm_DB =
  tables :: "string \<Rightarrow> storeRecord list"
  failure :: "string option"

text \<open>
  \<open>like p s\<close>: the SQL predicate \<open>s LIKE p\<close>, where \<open>%\<close> matches any sequence of
  characters and \<open>_\<close> any one character. The escape character is not modelled.
\<close>

fun like :: "string \<Rightarrow> string \<Rightarrow> bool" where
  "like [] [] = True"
| "like [] (c # s) = False"
| "like (p # ps) [] = (p = CHR ''%'' \<and> like ps [])"
| "like (p # ps) (c # s) =
     (if p = CHR ''%'' then like ps (c # s) \<or> like (p # ps) s
      else if p = CHR ''_'' then like ps s
      else p = c \<and> like ps s)"

text \<open>
  The three kinds of condition the adapter builds: \<open>key = ?\<close>, \<open>key LIKE ?\<close> and the
  bare column \<open>id\<close> that \<open>List\<close> passes to \<open>Or\<close>, which as an SQL condition is
  true of the rows whose id is not 0.
\<close>

datatype clause = key_eq string | key_LIKE string | column_id

fun clause_holds :: "clause \<Rightarrow> storeRecord \<Rightarrow> bool" where
  "clause_holds (key_eq k) r = (storeRecord.Key r = k)"
| "clause_holds (key_LIKE p) r = like p (storeRecord.Key r)"
| "clause_holds column_id r = (ID r \<noteq> 0)"

record search =
  tableName :: string
  whereConditions :: "clause list"
  orConditions :: "clause list"
  limit :: "nat option"
  offset :: "nat option"
  orders :: bool

definition gorm_Table :: "string \<Rightarrow> search" where
  "gorm_Table name = \<lparr>tableName = name, whereConditions = [], orConditions = [],
     limit = None, offset = None, orders = False\<rparr>"

definition gorm_Where :: "clause \<Rightarrow> search \<Rightarrow> search" where
  "gorm_Where c s = s\<lparr>whereConditions := whereConditions s @ [c]\<rparr>"

definition gorm_Or :: "clause \<Rightarrow> search \<Rightarrow> search" where
  "gorm_Or c s = s\<lparr>orConditions := orConditions s @ [c]\<rparr>"

definition gorm_Limit :: "64 word \<Rightarrow> search \<Rightarrow> search" where
  "gorm_Limit n s = s\<lparr>limit := Some (unat n)\<rparr>"

definition gorm_Offset :: "64 word \<Rightarrow> search \<Rightarrow> search" where
  "gorm_Offset n s = s\<lparr>offset := Some (unat n)\<rparr>"

definition gorm_Order_id :: "search \<Rightarrow> search" where
  "gorm_Order_id s = s\<lparr>orders := True\<rparr>"

text \<open>
  The WHERE clause of a session: the conjunction of the \<open>Where\<close> conditions, in
  disjunction with every \<open>Or\<close> condition; no condition at all selects every row.
\<close>

definition selects :: "search \<Rightarrow> storeRecord \<Rightarrow> bool" where
  "selects s r =
     (if whereConditions s = [] \<and> orConditions s = [] then True
      else (whereConditions s \<noteq> [] \<and> list_all (\<lambda>c. clause_holds c r) (whereConditions s))
           \<or> list_ex (\<lambda>c. clause_holds c r) (orConditions s))"

definition page :: "search \<Rightarrow> storeRecord list \<Rightarrow> storeRecord list" where
  "page s rs =
     (let skipped = (case offset s of None \<Rightarrow> rs | Some m \<Rightarrow> drop m rs)
      in case limit s of None \<Rightarrow> skipped | Some n \<Rightarrow> take n skipped)"

text \<open>
  \<open>Scan\<close> and \<open>Find\<close> into a slice: the selected rows, by id when the session is
  ordered and in storage order otherwise, then the page. No row is not an error.
\<close>

definition gorm_Find :: "gorm_DB \<Rightarrow> search \<Rightarrow> error + storeRecord list" where
  "gorm_Find d s =
     (case failure d of
        Some e \<Rightarrow> Inl (EngineError e)
      | None \<Rightarrow>
          (let selected = filter (selects s) (tables d (tableName s));
               ordered = (if orders s then sort_key ID selected else selected)
           in Inr (page s ordered)))"

text \<open>
  \<open>SELECT id FROM table WHERE key = ?\<close> read into \<open>r.ID\<close>: the id of the row with
  that key, and \<open>r.ID\<close> stays 0 when there is none.
\<close>

definition gorm_select_id :: "gorm_DB \<Rightarrow> string \<Rightarrow> string \<Rightarrow> error + int" where
  "gorm_select_id d tbl k =
     (case failure d of
        Some e \<Rightarrow> Inl (EngineError e)
      | None \<Rightarrow>
          (case filter (\<lambda>r. storeRecord.Key r = k) (tables d tbl) of
             [] \<Rightarrow> Inr 0
           | r # _ \<Rightarrow> Inr (ID r)))"

text \<open>
  \<open>Create\<close> inserts the record as a new row of the store's table; the auto-increment
  column gives it an id above every id of the table (the first one is 1).
\<close>

definition next_id :: "storeRecord list \<Rightarrow> int" where
  "next_id rs = fold max (map ID rs) 0 + 1"

definition gorm_Create :: "gorm_DB \<Rightarrow> string \<Rightarrow> storeRecord \<Rightarrow> error + gorm_DB" where
  "gorm_Create d tbl r =
     (case failure d of
        Some e \<Rightarrow> Inl (EngineError e)
      | None \<Rightarrow> Inr (d\<lparr>tables := (tables d)(tbl := tables d tbl @ [r\<lparr>ID := next_id (tables d tbl)\<rparr>])\<rparr>))"

text \<open>\<open>UPDATE table SET value = ?, expiry = ? WHERE id = ?\<close>, in its transaction.\<close>

definition gorm_update :: "gorm_DB \<Rightarrow> string \<Rightarrow> storeRecord \<Rightarrow> error + gorm_DB" where
  "gorm_update d tbl r =
     (case failure d of
        Some e \<Rightarrow> Inl (EngineError e)
      | None \<Rightarrow>
          Inr (d\<lparr>tables := (tables d)(tbl :=
                 map (\<lambda>x. if ID x = ID r
                          then x\<lparr>storeRecord.Value := storeRecord.Value r,
                                 storeRecord.Expiry := storeRecord.Expiry r\<rparr>
                          else x) (tables d tbl))\<rparr>))"

text \<open>\<open>DELETE FROM table WHERE key = ? LIMIT 1\<close>: the first row with the key goes.\<close>

fun delete_first :: "string \<Rightarrow> storeRecord list \<Rightarrow> storeRecord list" where
  "delete_first k [] = []"
| "delete_first k (r # rs) = (if storeRecord.Key r = k then rs else r # delete_first k rs)"

definition gorm_delete :: "gorm_DB \<Rightarrow> string \<Rightarrow> string \<Rightarrow> error + gorm_DB" where
  "gorm_delete d tbl k =
     (case failure d of
        Some e \<Rightarrow> Inl (EngineError e)
      | None \<Rightarrow> Inr (d\<lparr>tables := (tables d)(tbl := delete_first k (tables d tbl))\<rparr>))"

section \<open>The relational adapter (package mysql)\<close>

definition DefaultDatabase :: string where
  "DefaultDatabase = ''store''"

definition DefaultTable :: string where
  "DefaultTable = ''store''"

record ormStore =
  options :: Options
  db :: gorm_DB
  database :: string
  table :: string

text \<open>\<open>set\<close>: look the id of the key up, insert when it is 0, update the row otherwise.\<close>

definition orm_set :: "ormStore \<Rightarrow> storeRecord \<Rightarrow> error + ormStore" where
  "orm_set orm r =
     (case gorm_select_id (db orm) (table orm) (storeRecord.Key r) of
        Inl err \<Rightarrow> Inl (Errorf (''Couldn't insert record '' @ storeRecord.Key r) err)
      | Inr i \<Rightarrow>
          (let r' = r\<lparr>ID := i\<rparr> in
           if ID r' = 0
           then (case gorm_Create (db orm) (table orm) r' of
                   Inl err \<Rightarrow> Inl (Errorf (''Couldn't insert record '' @ storeRecord.Key r) err)
                 | Inr d \<Rightarrow> Inr (orm\<lparr>db := d\<rparr>))
           else (case gorm_update (db orm) (table orm) r' of
                   Inl err \<Rightarrow> Inl (Errorf (''Couldn't insert record '' @ storeRecord.Key r) err)
                 | Inr d \<Rightarrow> Inr (orm\<lparr>db := d\<rparr>))))"

text \<open>
  \<open>initDB\<close>: create the database, use it, create the table with its unique index on
  the key. In the model a table that was never written is empty, so the three statements
  only fail or succeed; the settings of the connection pool are not modelled.
\<close>

definition gorm_Exec :: "gorm_DB \<Rightarrow> error option" where
  "gorm_Exec d = map_option EngineError (failure d)"

definition orm_initDB :: "ormStore \<Rightarrow> error + ormStore" where
  "orm_initDB orm =
     (case gorm_Exec (db orm) of
        Some err \<Rightarrow> Inl (Errorf (''Couldn't create database '' @ database orm) err)
      | None \<Rightarrow>
          (case gorm_Exec (db orm) of
             Some err \<Rightarrow> Inl (Errorf (''Couldn't use database '' @ database orm) err)
           | None \<Rightarrow>
               (case gorm_Exec (db orm) of
                  Some err \<Rightarrow>
                    Inl (Errorf (''Couldn't create table '' @ database orm @ ''.'' @ table orm) err)
                | None \<Rightarrow> Inr orm)))"

text \<open>
  Go ranges over a string by runes. \<open>runes\<close> decodes UTF-8 as the language does: a byte
  that starts no valid encoding gives U+FFFD and is skipped alone.
\<close>

definition cont :: "nat \<Rightarrow> bool" where
  "cont b = (128 \<le> b \<and> b \<le> 191)"

fun decode :: "nat list \<Rightarrow> nat list" where
  "decode [] = []"
| "decode [b0] = [if b0 < 128 then b0 else 65533]"
| "decode [b0, b1] =
     (if b0 < 128 then b0 # decode [b1]
      else if 194 \<le> b0 \<and> b0 \<le> 223 \<and> cont b1 then [(b0 - 192) * 64 + (b1 - 128)]
      else 65533 # decode [b1])"
| "decode [b0, b1, b2] =
     (if b0 < 128 then b0 # decode [b1, b2]
      else if 194 \<le> b0 \<and> b0 \<le> 223 \<and> cont b1 then ((b0 - 192) * 64 + (b1 - 128)) # decode [b2]
      else if 224 \<le> b0 \<and> b0 \<le> 239 \<and> (if b0 = 224 then 160 else 128) \<le> b1
              \<and> b1 \<le> (if b0 = 237 then 159 else 191) \<and> cont b2
           then [(b0 - 224) * 4096 + (b1 - 128) * 64 + (b2 - 128)]
      else 65533 # decode [b1, b2])"
| "decode (b0 # b1 # b2 # b3 # bs) =
     (if b0 < 128 then b0 # decode (b1 # b2 # b3 # bs)
      else if 194 \<le> b0 \<and> b0 \<le> 223 \<and> cont b1
           then ((b0 - 192) * 64 + (b1 - 128)) # decode (b2 # b3 # bs)
      else if 224 \<le> b0 \<and> b0 \<le> 239 \<and> (if b0 = 224 then 160 else 128) \<le> b1
              \<and> b1 \<le> (if b0 = 237 then 159 else 191) \<and> cont b2
           then ((b0 - 224) * 4096 + (b1 - 128) * 64 + (b2 - 128)) # decode (b3 # bs)
      else if 240 \<le> b0 \<and> b0 \<le> 244 \<and> (if b0 = 240 then 144 else 128) \<le> b1
              \<and> b1 \<le> (if b0 = 244 then 143 else 191) \<and> cont b2 \<and> cont b3
           then ((b0 - 240) * 262144 + (b1 - 128) * 4096 + (b2 - 128) * 64 + (b3 - 128)) # decode bs
      else 65533 # decode (b1 # b2 # b3 # bs))"

definition runes :: "string \<Rightarrow> nat list" where
  "runes s = decode (map of_char s)"

text \<open>
  \<open>unicode.IsLetter\<close>: the Latin-1 range is the property table of the standard library;
  beyond it the library searches its table of the category Letter, which is the parameter
  \<open>Letter\<close> here.
\<close>

definition IsLetter :: "(nat \<Rightarrow> bool) \<Rightarrow> nat \<Rightarrow> bool" where
  "IsLetter Letter r =
     (if r \<le> 255
      then (65 \<le> r \<and> r \<le> 90) \<or> (97 \<le> r \<and> r \<le> 122) \<or> r = 170 \<or> r = 181 \<or> r = 186
           \<or> (192 \<le> r \<and> r \<le> 214) \<or> (216 \<le> r \<and> r \<le> 246) \<or> (248 \<le> r \<and> r \<le> 255)
      else Letter r)"

text \<open>
  \<open>configure\<close>. \<open>connect\<close> stands for \<open>gorm.Open\<close> followed by the ping: what the
  outside world answers to a data source name, a connection or the text of its error.
\<close>

definition default_source :: "string \<Rightarrow> string" where
  "default_source database' =
     ''root:@tcp('' @ [CHR 0x22] @ ''127.0.0.1:3306'' @ [CHR 0x22] @ '')/'' @ database'
       @ ''?charset=utf8mb4&parseTime=True&loc=Local''"

definition orm_configure ::
  "(nat \<Rightarrow> bool) \<Rightarrow> (string \<Rightarrow> string + gorm_DB) \<Rightarrow> ormStore \<Rightarrow> error + ormStore" where
  "orm_configure Letter connect orm =
     (let database' = (if length (Options.Database (options orm)) = 0 then DefaultDatabase
                       else Options.Database (options orm));
          table' = (if length (Options.Table (options orm)) = 0 then DefaultTable
                    else Options.Table (options orm));
          addrs = (if length (Options.Addresses (options orm)) = 0 then [default_source database']
                   else Options.Addresses (options orm))
      in if list_ex (\<lambda>r. \<not> IsLetter Letter r) (runes database') then Inl NamespaceError
         else (case connect (hd addrs) of
                 Inl err \<Rightarrow> Inl (EngineError err)
               | Inr d \<Rightarrow> orm_initDB (orm\<lparr>db := d, database := database', table := table'\<rparr>)))"

definition orm_Init ::
  "(nat \<Rightarrow> bool) \<Rightarrow> (string \<Rightarrow> string + gorm_DB) \<Rightarrow> ormStore \<Rightarrow> Option list \<Rightarrow> error + ormStore" where
  "orm_Init Letter connect orm opts =
     orm_configure Letter connect (orm\<lparr>options := foldl apply_Option (options orm) opts\<rparr>)"

text \<open>
  The loop of \<open>Read\<close> over the scanned rows: an expired row is skipped and its deletion
  is started in the background. The result is the records together with the keys whose
  deletion was started.
\<close>

definition expired :: "time \<Rightarrow> storeRecord \<Rightarrow> bool" where
  "expired now sr = (storeRecord.Expiry sr \<noteq> 0 \<and> Before (time_Unix (storeRecord.Expiry sr)) now)"

definition to_Record :: "storeRecord \<Rightarrow> Record" where
  "to_Record sr = \<lparr>Record.Key = storeRecord.Key sr, Record.Value = storeRecord.Value sr,
     Record.TTL = 0, Record.Expiry = time_Unix (storeRecord.Expiry sr)\<rparr>"

fun orm_Read_loop :: "time \<Rightarrow> storeRecord list \<Rightarrow> Record list \<Rightarrow> string list \<Rightarrow> Record list \<times> string list" where
  "orm_Read_loop now [] records deleted = (records, deleted)"
| "orm_Read_loop now (sr # srs) records deleted =
     (if expired now sr then orm_Read_loop now srs records (deleted @ [storeRecord.Key sr])
      else orm_Read_loop now srs (records @ [to_Record sr]) deleted)"

text \<open>
  \<open>Read\<close>. The offset is set on a copy of the session that the source drops
  (\<open>session.Offset(...)\<close> without assignment), so only the limit reaches the query.
  A failed scan is answered with \<open>ErrNotFound\<close>.
\<close>

definition orm_Read_session :: "ormStore \<Rightarrow> string \<Rightarrow> ReadOptions \<Rightarrow> search" where
  "orm_Read_session orm key opts =
     (let session = gorm_Table (table orm);
          session = (if ReadOptions.Prefix opts
                     then (let session = gorm_Where (key_LIKE (key @ ''%'')) session
                           in if ReadOptions.Suffix opts then gorm_Or (key_LIKE (''%'' @ key)) session
                              else session)
                     else if ReadOptions.Suffix opts then gorm_Where (key_LIKE (''%'' @ key)) session
                     else gorm_Where (key_eq key) session);
          session = (if ReadOptions.Limit opts \<noteq> 0 then gorm_Limit (ReadOptions.Limit opts) session
                     else session)
      in gorm_Order_id session)"

definition orm_Read ::
  "ormStore \<Rightarrow> string \<Rightarrow> ReadOption list \<Rightarrow> time \<Rightarrow> error + Record list \<times> string list" where
  "orm_Read orm key opts now =
     (let options = foldl apply_ReadOption zero_ReadOptions opts
      in case gorm_Find (db orm) (orm_Read_session orm key options) of
           Inl err \<Rightarrow> Inl ErrNotFound
         | Inr storeRecords \<Rightarrow> Inr (orm_Read_loop now storeRecords [] []))"

text \<open>\<open>Write\<close>: the expiry column is chosen by the chain of lines 256 to 264.\<close>

definition orm_Write_Expiry :: "Record \<Rightarrow> WriteOptions \<Rightarrow> time \<Rightarrow> int" where
  "orm_Write_Expiry r opts now =
     (if \<not> IsZero (Record.Expiry r) then Unix (Record.Expiry r)
      else if Record.TTL r \<noteq> 0 then Unix (Add now (Record.TTL r))
      else if \<not> IsZero (WriteOptions.Expiry opts) then Unix (WriteOptions.Expiry opts)
      else if WriteOptions.TTL opts \<noteq> 0 then Unix (Add now (WriteOptions.TTL opts))
      else 0)"

definition orm_Write :: "ormStore \<Rightarrow> Record \<Rightarrow> WriteOption list \<Rightarrow> time \<Rightarrow> error + ormStore" where
  "orm_Write orm r opts now =
     (let options = foldl apply_WriteOption zero_WriteOptions opts
      in orm_set orm \<lparr>ID = 0, storeRecord.Key = Record.Key r, storeRecord.Value = Record.Value r,
           storeRecord.Expiry = orm_Write_Expiry r options now\<rparr>)"

definition orm_Delete :: "ormStore \<Rightarrow> string \<Rightarrow> DeleteOption list \<Rightarrow> error + ormStore" where
  "orm_Delete orm key opts =
     (case gorm_delete (db orm) (table orm) key of
        Inl err \<Rightarrow> Inl err
      | Inr d \<Rightarrow> Inr (orm\<lparr>db := d\<rparr>))"

text \<open>
  \<open>List\<close>. The offset is \<open>Limit * Offset\<close> in the unsigned 64-bit arithmetic of the
  source, and the session ends with \<open>Or("id")\<close>, a condition, where \<open>Read\<close> has
  \<open>Order("id")\<close>.
\<close>

fun orm_List_loop :: "time \<Rightarrow> storeRecord list \<Rightarrow> string list \<Rightarrow> string list \<Rightarrow> string list \<times> string list" where
  "orm_List_loop now [] records deleted = (records, deleted)"
| "orm_List_loop now (sr # srs) records deleted =
     (if expired now sr then orm_List_loop now srs records (deleted @ [storeRecord.Key sr])
      else orm_List_loop now srs (records @ [storeRecord.Key sr]) deleted)"

definition orm_List_session :: "ormStore \<Rightarrow> ListOptions \<Rightarrow> search" where
  "orm_List_session orm opts =
     (let session = gorm_Table (table orm);
          session = (if ListOptions.Prefix opts \<noteq> []
                     then (let session = gorm_Where (key_LIKE (ListOptions.Prefix opts @ ''%'')) session
                           in if ListOptions.Suffix opts \<noteq> []
                              then gorm_Or (key_LIKE (''%'' @ ListOptions.Suffix opts)) session
                              else session)
                     else if ListOptions.Suffix opts \<noteq> []
                          then gorm_Where (key_LIKE (''%'' @ ListOptions.Suffix opts)) session
                          else session);
          session = (if ListOptions.Limit opts \<noteq> 0
                     then (let session = gorm_Limit (ListOptions.Limit opts) session
                           in if ListOptions.Offset opts \<noteq> 0
                              then gorm_Offset (ListOptions.Limit opts * ListOptions.Offset opts) session
                              else session)
                     else session)
      in gorm_Or column_id session)"

definition orm_List ::
  "ormStore \<Rightarrow> ListOption list \<Rightarrow> time \<Rightarrow> error + string list \<times> string list" where
  "orm_List orm opts now =
     (let options = foldl apply_ListOption zero_ListOptions opts
      in case gorm_Find (db orm) (orm_List_session orm options) of
           Inl err \<Rightarrow> Inl (Errorf (''Couldn't find keys '' @ database orm @ ''.'' @ table orm) err)
         | Inr storeRecords \<Rightarrow> Inr (orm_List_loop now storeRecords [] []))"

section \<open>The cache engine\<close>

text \<open>
  The cache adapter talks to a Redis server through a client library; neither is part of
  the repository. The model of the engine is an association list from keys to a value and
  an optional instant of expiry. A key whose instant has come is gone for every command.
  \<open>Set\<close> gives the key an expiry only when the duration is positive, as the client
  does, and the instant is taken exactly (the engine's rounding to milliseconds is not
  modelled). \<open>TTL\<close> answers in whole seconds, with -2 for an absent key and -1 for a key
  without expiry; no property below depends on these answers. When \<open>down\<close> is set,
  every command fails with that error.
\<close>

record redis_Client =
  data :: "(string \<times> bytes \<times> time option) list"
  down :: "string option"

text \<open>
  \<open>glob p s\<close>: the pattern matching of \<open>KEYS\<close>, where \<open>*\<close> matches any sequence of
  characters and \<open>?\<close> any one character. Character classes and the escape character are
  not modelled.
\<close>

fun glob :: "string \<Rightarrow> string \<Rightarrow> bool" where
  "glob [] [] = True"
| "glob [] (c # s) = False"
| "glob (p # ps) [] = (p = CHR ''*'' \<and> glob ps [])"
| "glob (p # ps) (c # s) =
     (if p = CHR ''*'' then glob ps (c # s) \<or> glob (p # ps) s
      else if p = CHR ''?'' then glob ps s
      else p = c \<and> glob ps s)"

definition alive :: "time \<Rightarrow> string \<times> bytes \<times> time option \<Rightarrow> bool" where
  "alive now e = (case snd (snd e) of None \<Rightarrow> True | Some t \<Rightarrow> now < t)"

definition redis_Keys :: "redis_Client \<Rightarrow> string \<Rightarrow> time \<Rightarrow> error + string list" where
  "redis_Keys c pattern now =
     (case down c of
        Some e \<Rightarrow> Inl (EngineError e)
      | None \<Rightarrow> Inr (map fst (filter (\<lambda>e. alive now e \<and> glob pattern (fst e)) (data c))))"

definition redis_Get :: "redis_Client \<Rightarrow> string \<Rightarrow> time \<Rightarrow> error + bytes option" where
  "redis_Get c k now =
     (case down c of
        Some e \<Rightarrow> Inl (EngineError e)
      | None \<Rightarrow>
          (case map_of (data c) k of
             None \<Rightarrow> Inl redis_Nil
           | Some (v, t) \<Rightarrow> if alive now (k, v, t) then Inr (Some v) else Inl redis_Nil))"

definition redis_TTL :: "redis_Client \<Rightarrow> string \<Rightarrow> time \<Rightarrow> error + duration" where
  "redis_TTL c k now =
     (case down c of
        Some e \<Rightarrow> Inl (EngineError e)
      | None \<Rightarrow>
          (case map_of (data c) k of
             None \<Rightarrow> Inr (- 2 * Second)
           | Some (v, None) \<Rightarrow> Inr (- 1 * Second)
           | Some (v, Some t) \<Rightarrow>
               if now < t then Inr (((t - now) div 1000000 + 500) div 1000 * Second)
               else Inr (- 2 * Second)))"

definition redis_Set ::
  "redis_Client \<Rightarrow> string \<Rightarrow> bytes \<Rightarrow> duration \<Rightarrow> time \<Rightarrow> error + redis_Client" where
  "redis_Set c k v expiration now =
     (case down c of
        Some e \<Rightarrow> Inl (EngineError e)
      | None \<Rightarrow>
          Inr (c\<lparr>data := AList.update k (v, if expiration > 0 then Some (now + expiration) else None)
                          (data c)\<rparr>))"

definition redis_Del :: "redis_Client \<Rightarrow> string \<Rightarrow> error + redis_Client" where
  "redis_Del c k =
     (case down c of
        Some e \<Rightarrow> Inl (EngineError e)
      | None \<Rightarrow> Inr (c\<lparr>data := AList.delete k (data c)\<rparr>))"

section \<open>The cache adapter (package redis)\<close>

record rkv =
  options :: Options
  client :: redis_Client

text \<open>
  \<open>Read\<close> collects the storage keys in a Go map used as a set and then ranges over it.
  The order of that iteration is not specified; the model keeps the keys in the order of
  their insertion.
\<close>

definition add_key :: "string list \<Rightarrow> string \<Rightarrow> string list" where
  "add_key keys k = (if k \<in> set keys then keys else keys @ [k])"

fun rkv_Read_loop ::
  "redis_Client \<Rightarrow> string \<Rightarrow> time \<Rightarrow> string list \<Rightarrow> Record list \<Rightarrow> error + Record list" where
  "rkv_Read_loop c key now [] records = Inr records"
| "rkv_Read_loop c key now (rkey # keys) records =
     (case redis_Get c rkey now of
        Inl err \<Rightarrow> if err = redis_Nil then Inl ErrNotFound else Inl err
      | Inr None \<Rightarrow> Inl ErrNotFound
      | Inr (Some val) \<Rightarrow>
          (case redis_TTL c rkey now of
             Inl err \<Rightarrow> Inl err
           | Inr d \<Rightarrow>
               rkv_Read_loop c key now keys
                 (records @ [\<lparr>Record.Key = key, Record.Value = val, Record.TTL = d,
                              Record.Expiry = Add now d\<rparr>])))"

definition rkv_Read_keys :: "rkv \<Rightarrow> string \<Rightarrow> ReadOptions \<Rightarrow> time \<Rightarrow> error + string list" where
  "rkv_Read_keys r rkey opts now =
     (let keys = [rkey]
      in case (if ReadOptions.Prefix opts
               then (case redis_Keys (client r) (rkey @ ''*'') now of
                       Inl err \<Rightarrow> Inl err
                     | Inr pkeys \<Rightarrow> Inr (foldl add_key keys pkeys))
               else Inr keys) of
           Inl err \<Rightarrow> Inl err
         | Inr keys \<Rightarrow>
             if ReadOptions.Suffix opts
             then (case redis_Keys (client r) (''*'' @ rkey) now of
                     Inl err \<Rightarrow> Inl err
                   | Inr skeys \<Rightarrow> Inr (foldl add_key keys skeys))
             else Inr keys)"

definition rkv_Read :: "rkv \<Rightarrow> string \<Rightarrow> ReadOption list \<Rightarrow> time \<Rightarrow> error + Record list" where
  "rkv_Read r key opts now =
     (let options = foldl apply_ReadOption
                      (zero_ReadOptions\<lparr>ReadOptions.Table := Options.Table (rkv.options r)\<rparr>) opts;
          rkey = ReadOptions.Table options @ key
      in case rkv_Read_keys r rkey options now of
           Inl err \<Rightarrow> Inl err
         | Inr keys \<Rightarrow> rkv_Read_loop (client r) key now keys [])"

definition rkv_Delete :: "rkv \<Rightarrow> string \<Rightarrow> DeleteOption list \<Rightarrow> error + rkv" where
  "rkv_Delete r key opts =
     (let options = foldl apply_DeleteOption
                      (zero_DeleteOptions\<lparr>DeleteOptions.Table := Options.Table (rkv.options r)\<rparr>) opts;
          rkey = DeleteOptions.Table options @ key
      in case redis_Del (client r) rkey of
           Inl err \<Rightarrow> Inl err
         | Inr c \<Rightarrow> Inr (r\<lparr>client := c\<rparr>))"

text \<open>
  \<open>Write\<close> assigns to the caller's record before it stores it (lines 157 to 166); the
  model returns the record as \<open>Write\<close> leaves it, with the new state of the store.
\<close>

definition rkv_Write_record :: "Record \<Rightarrow> WriteOption list \<Rightarrow> WriteOptions \<Rightarrow> time \<Rightarrow> Record" where
  "rkv_Write_record record opts options' now =
     (if length opts > 0
      then (let record = (if \<not> IsZero (WriteOptions.Expiry options')
                          then record\<lparr>Record.TTL := Since now (WriteOptions.Expiry options'),
                                       Record.Expiry := WriteOptions.Expiry options'\<rparr>
                          else record)
            in if WriteOptions.TTL options' \<noteq> 0
               then record\<lparr>Record.TTL := WriteOptions.TTL options',
                            Record.Expiry := Add now (WriteOptions.TTL options')\<rparr>
               else record)
      else record)"

definition rkv_Write :: "rkv \<Rightarrow> Record \<Rightarrow> WriteOption list \<Rightarrow> time \<Rightarrow> error + Record \<times> rkv" where
  "rkv_Write r record opts now =
     (let options = foldl apply_WriteOption
                      (zero_WriteOptions\<lparr>WriteOptions.Table := Options.Table (rkv.options r)\<rparr>) opts;
          record = rkv_Write_record record opts options now;
          rkey = WriteOptions.Table options @ Record.Key record
      in case redis_Set (client r) rkey (Record.Value record) (Record.TTL record) now of
           Inl err \<Rightarrow> Inl err
         | Inr c \<Rightarrow> Inr (record, r\<lparr>client := c\<rparr>))"

definition rkv_List_pattern :: "ListOptions \<Rightarrow> string" where
  "rkv_List_pattern opts =
     (if ListOptions.Prefix opts \<noteq> [] then ListOptions.Prefix opts @ ''*''
      else if ListOptions.Suffix opts \<noteq> [] then ''*'' @ ListOptions.Suffix opts
      else ''*'')"

definition rkv_List :: "rkv \<Rightarrow> ListOption list \<Rightarrow> time \<Rightarrow> error + string list" where
  "rkv_List r opts now =
     (let options = foldl apply_ListOption
                      (zero_ListOptions\<lparr>ListOptions.Table := Options.Table (rkv.options r)\<rparr>) opts
      in redis_Keys (client r) (rkv_List_pattern options) now)"

section \<open>Notions used to state the properties\<close>






text \<open>
  What \<open>Read\<close> and \<open>List\<close> of the relational adapter hand to the caller: the records
  or keys, and nothing when the call fails.
\<close>

definition returned :: "error + 'a list \<times> string list \<Rightarrow> 'a list" where
  "returned res = (case res of Inl err \<Rightarrow> [] | Inr (xs, deleted) \<Rightarrow> xs)"


subsection \<open>Concrete stores\<close>

definition row :: "int \<Rightarrow> string \<Rightarrow> bytes \<Rightarrow> int \<Rightarrow> storeRecord" where
  "row i k v e = \<lparr>ID = i, storeRecord.Key = k, storeRecord.Value = v, storeRecord.Expiry = e\<rparr>"

definition example_orm :: "storeRecord list \<Rightarrow> string option \<Rightarrow> ormStore" where
  "example_orm rs f =
     \<lparr>ormStore.options = zero_Options,
      db = \<lparr>tables = (\<lambda>_. [])(''store'' := rs), failure = f\<rparr>,
      database = ''store'', table = ''store''\<rparr>"

definition example_rkv :: "(string \<times> bytes \<times> time option) list \<Rightarrow> rkv" where
  "example_rkv d = \<lparr>rkv.options = zero_Options, client = \<lparr>data = d, down = None\<rparr>\<rparr>"

text \<open>An instance of the letter table: no code point above Latin-1 counts as a letter.\<close>

definition latin1_only :: "nat \<Rightarrow> bool" where
  "latin1_only r = False"


definition five_keys :: rkv where
  "five_keys = example_rkv [(''k0'', [], None), (''k1'', [], None), (''k2'', [], None),
     (''k3'', [], None), (''k4'', [], None)]"

definition five_rows :: ormStore where
  "five_rows = example_orm [row 1 ''k0'' [] 0, row 2 ''k1'' [] 0, row 3 ''k2'' [] 0,
     row 4 ''k3'' [] 0, row 5 ''k4'' [] 0] None"

definition record_k :: Record where
  "record_k = \<lparr>Record.Key = ''k'', Record.Value = [1], Record.TTL = 0, Record.Expiry = 0\<rparr>"

definition three_rows :: ormStore where
  "three_rows = example_orm [row 1 ''a1'' [] 0, row 2 ''1a'' [] 0, row 3 ''b1'' [] 0] None"


section \<open>Lemmas shared by the properties\<close>

lemma orm_Read_loop_eq:
  "orm_Read_loop now srs records deleted =
     (records @ map to_Record (filter (\<lambda>sr. \<not> expired now sr) srs),
      deleted @ map storeRecord.Key (filter (expired now) srs))"
  by (induction srs arbitrary: records deleted) simp_all

lemma orm_List_loop_eq:
  "orm_List_loop now srs records deleted =
     (records @ map storeRecord.Key (filter (\<lambda>sr. \<not> expired now sr) srs),
      deleted @ map storeRecord.Key (filter (expired now) srs))"
  by (induction srs arbitrary: records deleted) simp_all

lemma set_page: "set (page s rs) \<subseteq> set rs"
proof -
  have a: "set (case offset s of None \<Rightarrow> rs | Some m \<Rightarrow> drop m rs) \<subseteq> set rs"
    by (cases "offset s") (auto dest: in_set_dropD)
  show ?thesis unfolding page_def Let_def
    using a by (cases "limit s") (auto dest: in_set_takeD)
qed

lemma gorm_Find_subset:
  assumes "gorm_Find d s = Inr found"
  shows "set found \<subseteq> set (tables d (tableName s))"
proof -
  from assms have "found = page s (if orders s then sort_key ID (filter (selects s) (tables d (tableName s)))
       else filter (selects s) (tables d (tableName s)))"
    by (auto simp add: gorm_Find_def Let_def split: option.splits)
  moreover have "set (sort_key ID (filter (selects s) (tables d (tableName s)))) \<subseteq> set (tables d (tableName s))"
    by auto
  moreover have "set (filter (selects s) (tables d (tableName s))) \<subseteq> set (tables d (tableName s))"
    by auto
  ultimately show ?thesis using set_page[of s] by (metis (full_types) subset_trans)
qed

lemma tableName_Read [simp]: "tableName (orm_Read_session orm key opts) = table orm"
  by (simp add: orm_Read_session_def Let_def gorm_Table_def gorm_Where_def gorm_Or_def
      gorm_Limit_def gorm_Order_id_def)

lemma tableName_List [simp]: "tableName (orm_List_session orm opts) = table orm"
  by (simp add: orm_List_session_def Let_def gorm_Table_def gorm_Where_def gorm_Or_def
      gorm_Limit_def gorm_Offset_def)

lemma returned_orm_Read:
  "\<exists>found. set found \<subseteq> set (tables (db orm) (table orm))
      \<and> returned (orm_Read orm key opts now) = map to_Record (filter (\<lambda>sr. \<not> expired now sr) found)"
proof (cases "gorm_Find (db orm) (orm_Read_session orm key (foldl apply_ReadOption zero_ReadOptions opts))")
  case (Inl err)
  then have "returned (orm_Read orm key opts now) = map to_Record (filter (\<lambda>sr. \<not> expired now sr) [])"
    by (simp add: orm_Read_def returned_def)
  then show ?thesis by (metis empty_subsetI list.set(1))
next
  case (Inr found)
  then have "returned (orm_Read orm key opts now) = map to_Record (filter (\<lambda>sr. \<not> expired now sr) found)"
    by (simp add: orm_Read_def returned_def orm_Read_loop_eq)
  with gorm_Find_subset[OF Inr] show ?thesis by auto
qed

lemma returned_orm_List:
  "\<exists>found. set found \<subseteq> set (tables (db orm) (table orm))
      \<and> returned (orm_List orm opts now) = map storeRecord.Key (filter (\<lambda>sr. \<not> expired now sr) found)"
proof (cases "gorm_Find (db orm) (orm_List_session orm (foldl apply_ListOption zero_ListOptions opts))")
  case (Inl err)
  then have "returned (orm_List orm opts now) = map storeRecord.Key (filter (\<lambda>sr. \<not> expired now sr) [])"
    by (simp add: orm_List_def returned_def)
  then show ?thesis by (metis empty_subsetI list.set(1))
next
  case (Inr found)
  then have "returned (orm_List orm opts now) = map storeRecord.Key (filter (\<lambda>sr. \<not> expired now sr) found)"
    by (simp add: orm_List_def returned_def orm_List_loop_eq)
  with gorm_Find_subset[OF Inr] show ?thesis by auto
qed

lemma unique_key:
  assumes "distinct (map storeRecord.Key rs)" and "x \<in> set rs" and "y \<in> set rs"
    and "storeRecord.Key x = storeRecord.Key y"
  shows "x = y"
  using assms by (meson distinct_map inj_onD)

lemma Unix_Add_seconds: "Unix (Add now (n * Second)) = Unix now + n"
  by (simp add: Unix_def Add_def Second_def)

lemma example_table [simp]: "tables (db (example_orm rs f)) (table (example_orm rs f)) = rs"
  by (simp add: example_orm_def)

lemma time_Unix_less [simp]: "(time_Unix a < time_Unix b) = (a < b)"
  by (simp add: time_Unix_def Second_def)

lemma Unix_time_Unix [simp]: "Unix (time_Unix n) = n"
  by (simp add: Unix_def time_Unix_def Second_def)

lemma time_Unix_le [simp]: "(time_Unix a \<le> time_Unix b) = (a \<le> b)"
  by (simp add: time_Unix_def Second_def)

lemmas example_defs = example_orm_def example_rkv_def row_def zero_Options_def
  zero_ReadOptions_def zero_WriteOptions_def zero_ListOptions_def zero_DeleteOptions_def

lemmas gorm_defs = gorm_Find_def gorm_Table_def gorm_Where_def gorm_Or_def gorm_Limit_def
  gorm_Offset_def gorm_Order_id_def selects_def page_def

section \<open>C1: precedence of the write options over the record\<close>

text \<open>
  C1 says that a write whose record carries a TTL and whose options carry an Expiry stores
  the Expiry of the options, on both adapters. The chain of the relational adapter asks the
  record first: with a record TTL of 5 seconds and an option Expiry 100 seconds ahead, the
  expiry column holds the second that lies 5 seconds ahead, for every record and instant.
  The cache adapter does assign the option's Expiry to the record, but the duration that
  it hands to the engine is \<open>time.Since\<close> of that Expiry, which is 100 seconds in the
  past direction.
\<close>

theorem C1_record_TTL_wins_in_orm_Write:
  "orm_Write_Expiry \<lparr>Record.Key = k, Record.Value = v, Record.TTL = 5 * Second, Record.Expiry = 0\<rparr>
       (foldl apply_WriteOption zero_WriteOptions [WithWriteExpiry (Add now (100 * Second))]) now
     = Unix now + 5
   \<and> Unix (Add now (100 * Second)) = Unix now + 100
   \<and> rkv_Write_record \<lparr>Record.Key = k, Record.Value = v, Record.TTL = 5 * Second, Record.Expiry = 0\<rparr>
       [WithWriteExpiry (time_Unix 1100)]
       (foldl apply_WriteOption zero_WriteOptions [WithWriteExpiry (time_Unix 1100)]) (time_Unix 1000)
     = \<lparr>Record.Key = k, Record.Value = v, Record.TTL = - (100 * Second), Record.Expiry = time_Unix 1100\<rparr>"
proof -
  have nz: "5 * Second \<noteq> 0"
    by (simp add: Second_def)
  have orm: "orm_Write_Expiry \<lparr>Record.Key = k, Record.Value = v, Record.TTL = 5 * Second, Record.Expiry = 0\<rparr>
       (foldl apply_WriteOption zero_WriteOptions [WithWriteExpiry (Add now (100 * Second))]) now
     = Unix (Add now (5 * Second))"
    using nz by (simp add: orm_Write_Expiry_def IsZero_def)
  have rkv: "rkv_Write_record \<lparr>Record.Key = k, Record.Value = v, Record.TTL = 5 * Second, Record.Expiry = 0\<rparr>
       [WithWriteExpiry (time_Unix 1100)]
       (foldl apply_WriteOption zero_WriteOptions [WithWriteExpiry (time_Unix 1100)]) (time_Unix 1000)
     = \<lparr>Record.Key = k, Record.Value = v, Record.TTL = - (100 * Second), Record.Expiry = time_Unix 1100\<rparr>"
    by (simp add: rkv_Write_record_def zero_WriteOptions_def IsZero_def Since_def time_Unix_def
        unixToInternal_def Second_def)
  show ?thesis
    unfolding orm rkv Unix_Add_seconds by simp
qed

section \<open>C2: expired rows are not returned\<close>

text \<open>
  C2, as amended: a stored row of the relational adapter whose expiry column is not 0 and
  lies strictly before the current instant is in the result of neither \<open>Read\<close> nor
  \<open>List\<close>, whatever the key and the options, although the row is still in the table. The
  keys of a table are unique (the unique index of the schema), so the key of the row
  identifies it in the results.
\<close>

theorem C2_expired_rows_are_excluded:
  assumes "sr \<in> set (tables (db orm) (table orm))"
    and "storeRecord.Expiry sr \<noteq> 0"
    and "time_Unix (storeRecord.Expiry sr) < now"
    and "distinct (map storeRecord.Key (tables (db orm) (table orm)))"
  shows "storeRecord.Key sr \<notin> Record.Key ` set (returned (orm_Read orm key ropts now))
       \<and> storeRecord.Key sr \<notin> set (returned (orm_List orm lopts now))"
proof -
  have e: "expired now sr"
    using assms(2,3) by (simp add: expired_def Before_def)
  have k: "storeRecord.Key x \<noteq> storeRecord.Key sr"
    if "\<not> expired now x" and "x \<in> set (tables (db orm) (table orm))" for x
    using unique_key[OF assms(4) that(2) assms(1)] e that(1) by auto
  have "storeRecord.Key sr \<notin> Record.Key ` set (returned (orm_Read orm key ropts now))"
  proof
    assume a: "storeRecord.Key sr \<in> Record.Key ` set (returned (orm_Read orm key ropts now))"
    obtain found where f: "set found \<subseteq> set (tables (db orm) (table orm))"
      and r: "returned (orm_Read orm key ropts now)
              = map to_Record (filter (\<lambda>sr. \<not> expired now sr) found)"
      using returned_orm_Read by blast
    from a obtain x where "x \<in> set found" "\<not> expired now x"
      "storeRecord.Key x = storeRecord.Key sr"
      unfolding r by (auto simp add: to_Record_def)
    then show False using f k by blast
  qed
  moreover have "storeRecord.Key sr \<notin> set (returned (orm_List orm lopts now))"
  proof
    assume a: "storeRecord.Key sr \<in> set (returned (orm_List orm lopts now))"
    obtain found where f: "set found \<subseteq> set (tables (db orm) (table orm))"
      and r: "returned (orm_List orm lopts now)
              = map storeRecord.Key (filter (\<lambda>sr. \<not> expired now sr) found)"
      using returned_orm_List by blast
    from a obtain x where "x \<in> set found" "\<not> expired now x"
      "storeRecord.Key x = storeRecord.Key sr"
      unfolding r by auto
    then show False using f k by blast
  qed
  ultimately show ?thesis by blast
qed

text \<open>The theorem at a table with an expired row and a row without expiry.\<close>

theorem C2_witness:
  "row 1 ''k'' [] 100 \<in> set (tables (db (example_orm [row 1 ''k'' [] 100, row 2 ''j'' [] 0] None))
       (table (example_orm [row 1 ''k'' [] 100, row 2 ''j'' [] 0] None)))
   \<and> storeRecord.Expiry (row 1 ''k'' [] 100) \<noteq> 0
   \<and> time_Unix (storeRecord.Expiry (row 1 ''k'' [] 100)) < time_Unix 101
   \<and> ''k'' \<notin> Record.Key ` set (returned
         (orm_Read (example_orm [row 1 ''k'' [] 100, row 2 ''j'' [] 0] None) ''k'' [] (time_Unix 101)))
   \<and> ''k'' \<notin> set (returned
         (orm_List (example_orm [row 1 ''k'' [] 100, row 2 ''j'' [] 0] None) [] (time_Unix 101)))"
  using C2_expired_rows_are_excluded[of "row 1 ''k'' [] 100"
      "example_orm [row 1 ''k'' [] 100, row 2 ''j'' [] 0] None" "time_Unix 101" "''k''" "[]" "[]"]
  by (simp add: row_def)

text \<open>
  C2 as stated fails at the instant of expiry itself: the test of the source is
  \<open>Before\<close>, so a row whose expiry is the current instant is still returned.
\<close>

theorem C2_counterexample:
  "storeRecord.Expiry (row 1 ''k'' [] 100) \<noteq> 0
   \<and> time_Unix (storeRecord.Expiry (row 1 ''k'' [] 100)) \<le> time_Unix 100
   \<and> row 1 ''k'' [] 100 \<in> set (tables (db (example_orm [row 1 ''k'' [] 100] None))
         (table (example_orm [row 1 ''k'' [] 100] None)))
   \<and> ''k'' \<in> Record.Key ` set (returned
         (orm_Read (example_orm [row 1 ''k'' [] 100] None) ''k'' [] (time_Unix 100)))
   \<and> ''k'' \<in> set (returned (orm_List (example_orm [row 1 ''k'' [] 100] None) [] (time_Unix 100)))"
  by (simp add: orm_Read_def orm_List_def orm_Read_session_def orm_List_session_def returned_def
      example_defs gorm_defs expired_def Before_def to_Record_def)

section \<open>C3: List with a prefix and a suffix\<close>









text \<open>
  The \<open>List\<close> of the relational adapter ends its session with \<open>Or("id")\<close>, so the
  rows with a non-zero id are selected whatever their key: over the keys a1, 1a and b1 the
  call with prefix a and suffix 1 also lists 1a. This is why the property below says which
  keys are in the result and not which are not.
\<close>

lemma orm_List_Or_id_selects_other_keys:
  "returned (orm_List three_rows [WithListPrefix ''a'', WithListSuffix ''1''] now)
     = [''a1'', ''1a'', ''b1'']"
  by (simp add: three_rows_def orm_List_def orm_List_session_def returned_def example_defs
      gorm_defs expired_def)




section \<open>C4: pagination and expiry\<close>

lemma selects_page [simp]: "selects (s\<lparr>limit := l, offset := m\<rparr>) = selects s"
  by (rule ext) (simp add: selects_def)








section \<open>C5: when Read answers NotFound\<close>

text \<open>
  C5 says that \<open>Read\<close> answers \<open>ErrNotFound\<close> exactly when no live record matches and
  passes the engine's error on when the engine fails. The relational adapter does the
  opposite: its \<open>Read\<close> answers \<open>ErrNotFound\<close> exactly when the query fails, so a key
  that matches no row gives an empty result without error. The prefix \<open>Read\<close> of the cache
  adapter answers \<open>ErrNotFound\<close> although a key matches, when the search key itself is not
  stored.
\<close>

theorem C5_orm_Read_answers_NotFound_for_failures_only:
  "(orm_Read orm key opts now = Inl ErrNotFound) = (failure (db orm) \<noteq> None)
   \<and> orm_Read (example_orm [] None) ''k'' [] now = Inr ([], [])
   \<and> orm_Read (example_orm [] (Some ''connection refused'')) ''k'' [] now = Inl ErrNotFound
   \<and> rkv_Read (example_rkv [(''a1'', [1], None)]) ''a'' [WithReadPrefix] now = Inl ErrNotFound"
proof -
  have "(orm_Read orm key opts now = Inl ErrNotFound) = (failure (db orm) \<noteq> None)"
    by (auto simp add: orm_Read_def gorm_Find_def Let_def split: option.splits)
  moreover have "orm_Read (example_orm [] None) ''k'' [] now = Inr ([], [])"
    by (simp add: orm_Read_def orm_Read_session_def example_defs gorm_defs)
  moreover have "orm_Read (example_orm [] (Some ''connection refused'')) ''k'' [] now
                 = Inl ErrNotFound"
    by (simp add: orm_Read_def orm_Read_session_def example_defs gorm_defs)
  moreover have "rkv_Read (example_rkv [(''a1'', [1], None)]) ''a'' [WithReadPrefix] now
                 = Inl ErrNotFound"
    by (simp add: rkv_Read_def rkv_Read_keys_def example_defs redis_Keys_def redis_Get_def
        alive_def add_key_def)
  ultimately show ?thesis by blast
qed

section \<open>C6: a written record is read back\<close>

















section \<open>C7: pagination of List\<close>

text \<open>
  C7 says that \<open>List\<close> with Limit 2 and Offset 1 over five live keys returns the keys at
  positions 2 and 3, on both adapters. The relational adapter does (its offset is
  \<open>Limit * Offset\<close> rows); the \<open>List\<close> of the cache adapter never reads the two options
  and returns the five keys.
\<close>

theorem C7_rkv_List_ignores_Limit_and_Offset:
  "rkv_List five_keys [WithListLimit 2, WithListOffset 1] now
     = Inr [''k0'', ''k1'', ''k2'', ''k3'', ''k4'']
   \<and> orm_List five_rows [WithListLimit 2, WithListOffset 1] now = Inr ([''k2'', ''k3''], [])"
  by (simp add: five_keys_def five_rows_def rkv_List_def rkv_List_pattern_def redis_Keys_def alive_def
      orm_List_def orm_List_session_def example_defs gorm_defs expired_def)

section \<open>C8: namespaces\<close>

lemma orm_Read_session_namespace:
  "orm_Read_session orm key (ro\<lparr>ReadOptions.Database := d, ReadOptions.Table := t\<rparr>) = orm_Read_session orm key ro"
  by (simp add: orm_Read_session_def Let_def)

lemma rkv_List_pattern_namespace:
  "rkv_List_pattern (lo\<lparr>ListOptions.Database := d, ListOptions.Table := t\<rparr>) = rkv_List_pattern lo"
  by (simp add: rkv_List_pattern_def)

text \<open>
  C8 says that an operation-level table option decides the namespace, so that a record
  written under table t1 is not seen by a \<open>Read\<close> or \<open>List\<close> scoped to table t2. The
  relational adapter never reads the namespace of the operation's options: a \<open>Read\<close>
  with any database and table option is the \<open>Read\<close> without it, and a record written
  with the option t1 is read back with the option t2. The \<open>List\<close> of the cache adapter
  resolves the table and then leaves it out of its pattern: it lists the key written under
  t1 when it is scoped to t2.
\<close>

theorem C8_operation_level_table_is_not_honoured:
  "orm_Read orm key (opts @ [WithReadDatabase d t]) now = orm_Read orm key opts now
   \<and> rkv_List r (lopts @ [WithListFrom d t]) now = rkv_List r lopts now
   \<and> (case orm_Write (example_orm [] None) record_k [WithWriteDatabase ''store'' ''t1''] now of
         Inl err \<Rightarrow> []
       | Inr orm' \<Rightarrow> returned (orm_Read orm' ''k'' [WithReadDatabase ''store'' ''t2''] now))
      = [\<lparr>Record.Key = ''k'', Record.Value = [1], Record.TTL = 0, Record.Expiry = time_Unix 0\<rparr>]
   \<and> (case rkv_Write (example_rkv []) record_k [WithWriteDatabase [] ''t1''] now of
         Inl err \<Rightarrow> Inl err
       | Inr (record', r') \<Rightarrow> rkv_List r' [WithListFrom [] ''t2''] now)
      = Inr [''t1k'']"
proof -
  have "orm_Read orm key (opts @ [WithReadDatabase d t]) now = orm_Read orm key opts now"
    by (simp add: orm_Read_def orm_Read_session_namespace)
  moreover have "rkv_List r (lopts @ [WithListFrom d t]) now = rkv_List r lopts now"
    by (simp add: rkv_List_def rkv_List_pattern_namespace)
  moreover have "(case orm_Write (example_orm [] None) record_k [WithWriteDatabase ''store'' ''t1''] now of
         Inl err \<Rightarrow> []
       | Inr orm' \<Rightarrow> returned (orm_Read orm' ''k'' [WithReadDatabase ''store'' ''t2''] now))
      = [\<lparr>Record.Key = ''k'', Record.Value = [1], Record.TTL = 0, Record.Expiry = time_Unix 0\<rparr>]"
    by (simp add: orm_Write_def orm_set_def gorm_select_id_def gorm_Create_def next_id_def
        orm_Write_Expiry_def IsZero_def record_k_def orm_Read_def orm_Read_session_def returned_def
        example_defs gorm_defs expired_def to_Record_def)
  moreover have "(case rkv_Write (example_rkv []) record_k [WithWriteDatabase [] ''t1''] now of
         Inl err \<Rightarrow> Inl err
       | Inr (record', r') \<Rightarrow> rkv_List r' [WithListFrom [] ''t2''] now)
      = Inr [''t1k'']"
    by (simp add: rkv_Write_def rkv_Write_record_def redis_Set_def record_k_def IsZero_def
        rkv_List_def rkv_List_pattern_def redis_Keys_def alive_def example_defs)
  ultimately show ?thesis by blast
qed

section \<open>C9: validation of the database name\<close>

lemma runes_store: "runes DefaultDatabase = [115, 116, 111, 114, 101]"
  by (simp add: runes_def DefaultDatabase_def)

lemma runes_Nil: "runes [] = []"
  by (simp add: runes_def)

lemma store_letters: "\<not> list_ex (\<lambda>r. \<not> IsLetter Letter r) (runes DefaultDatabase)"
  by (simp add: runes_store IsLetter_def)

lemma orm_initDB_not_Namespace: "orm_initDB orm \<noteq> Inl NamespaceError"
  by (simp add: orm_initDB_def gorm_Exec_def split: option.splits)

lemma orm_configure_Namespace:
  "(orm_configure Letter connect orm = Inl NamespaceError)
     = list_ex (\<lambda>r. \<not> IsLetter Letter r) (runes (Options.Database (ormStore.options orm)))"
proof (cases "Options.Database (ormStore.options orm) = []")
  case True
  then show ?thesis
    by (simp add: orm_configure_def Let_def store_letters runes_Nil
        orm_initDB_not_Namespace split: sum.splits)
next
  case False
  then show ?thesis
    by (simp add: orm_configure_def Let_def orm_initDB_not_Namespace split: sum.splits)
qed

text \<open>
  C9: \<open>configure\<close> fails with the error of the name validation exactly when the
  database name has a rune that is not a letter, whatever the engine would answer (the
  validation comes before the connection), and so does \<open>Init\<close> with a database option.
  A name of letters only never gives that error; an empty name stands for the default
  name, which passes.
\<close>

theorem C9_database_name_must_be_letters:
  "(orm_configure Letter connect orm = Inl NamespaceError)
     = list_ex (\<lambda>r. \<not> IsLetter Letter r) (runes (Options.Database (ormStore.options orm)))
   \<and> (orm_Init Letter connect orm [WithDatabase name tbl] = Inl NamespaceError)
     = list_ex (\<lambda>r. \<not> IsLetter Letter r) (runes name)"
  by (simp add: orm_configure_Namespace orm_Init_def)

text \<open>The theorem at the names \<open>my_db\<close> and \<open>mydb\<close>, with an engine that is unreachable.\<close>

theorem C9_witness:
  "orm_Init latin1_only (\<lambda>source. Inl ''unreachable'') (example_orm [] None) [WithDatabase ''my_db'' ''t'']
     = Inl NamespaceError
   \<and> orm_Init latin1_only (\<lambda>source. Inl ''unreachable'') (example_orm [] None) [WithDatabase ''mydb'' ''t'']
     \<noteq> Inl NamespaceError"
  using C9_database_name_must_be_letters[of latin1_only "\<lambda>source. Inl ''unreachable''" "example_orm [] None"]
  by (simp add: runes_def IsLetter_def)

section \<open>C10: the keys of the records of a cache Read\<close>

lemma rkv_Read_loop_Key:
  assumes "rkv_Read_loop c key now keys acc = Inr records"
    and "list_all (\<lambda>rec. Record.Key rec = key) acc"
  shows "list_all (\<lambda>rec. Record.Key rec = key) records"
  using assms
proof (induction keys arbitrary: acc)
  case Nil
  then show ?case by simp
next
  case (Cons rkey keys)
  then show ?case
    by (auto split: sum.splits option.splits if_splits)
qed

text \<open>
  C10: every record that a \<open>Read\<close> of the cache adapter returns has the caller's search
  key as its \<open>Key\<close>, also with the Prefix or Suffix flag when several storage keys
  matched: the records then all carry the same key and the matched keys are not in the
  result.
\<close>

theorem C10_rkv_Read_records_carry_the_search_key:
  assumes "rkv_Read r key opts now = Inr records"
  shows "list_all (\<lambda>rec. Record.Key rec = key) records"
  using assms rkv_Read_loop_Key[of "client r" key now _ "[]" records]
  by (auto simp add: rkv_Read_def Let_def split: sum.splits)

text \<open>The theorem at a prefix \<open>Read\<close> that matches three stored keys.\<close>

theorem C10_witness:
  "(case rkv_Read (example_rkv [(''a'', [1], None), (''a1'', [2], None), (''a2'', [3], None)]) ''a''
           [WithReadPrefix] (time_Unix 100) of
      Inl err \<Rightarrow> []
    | Inr records \<Rightarrow> map (\<lambda>rec. (Record.Key rec, Record.Value rec)) records)
   = [(''a'', [1]), (''a'', [2]), (''a'', [3])]"
proof -
  obtain r1 r2 r3 where e: "rkv_Read (example_rkv [(''a'', [1], None), (''a1'', [2], None), (''a2'', [3], None)])
        ''a'' [WithReadPrefix] (time_Unix 100) = Inr [r1, r2, r3]"
    and v: "Record.Value r1 = [1]" "Record.Value r2 = [2]" "Record.Value r3 = [3]"
    by (simp add: rkv_Read_def rkv_Read_keys_def example_defs redis_Keys_def redis_Get_def
        redis_TTL_def alive_def add_key_def Add_def Let_def)
  from C10_rkv_Read_records_carry_the_search_key[OF e] e v show ?thesis by simp
qed

end
